theory Spec2Isabelle
  imports Complex_Main "HOL-Library.Sublist" "HOL-Library.Char_ord" "HOL-Library.List_Lexorder"
begin

section \<open>Employee salary predictor: the serving script \<open>app.py\<close>\<close>

text \<open>
  The serving script is a Streamlit page: it loads a pickled scikit-learn pipeline, renders
  a form, and on submission predicts a salary in USD and shows it converted into INR and
  into the currency of the company's country.

  Conventions of the embedding.
  \<^item> A Python \<open>str\<close> is a \<open>string\<close> holding its UTF-8 bytes; a currency symbol beyond
    ASCII is written as the list of its bytes.
  \<^item> A Python \<open>float\<close> appears in two ways. The functions named \<open>float_...\<close> take the
    operations on floats (the product, the value of a decimal literal, the formatting with
    \<open>:,.2f\<close>) as a record of parameters, so what is proved of them holds of IEEE doubles.
    The functions without the prefix compute with exact reals; they are the instance
    \<open>exact_ops\<close> and agree with the code where the doubles involved are exact, as for
    the rate 1 and for 100000 and 83.5.
  \<^item> A Python \<open>int\<close> is an \<open>int\<close>.
  \<^item> The calls the script makes on Streamlit, on \<open>time\<close> and on the loaded pipeline are
    recorded, in order, as a list of \<open>st_call\<close>.
\<close>

subsection \<open>Currency conversion rates\<close>

definition USD_TO_INR_RATE :: real where "USD_TO_INR_RATE = 83.5"
definition USD_TO_EUR_RATE :: real where "USD_TO_EUR_RATE = 0.92"
definition USD_TO_GBP_RATE :: real where "USD_TO_GBP_RATE = 0.79"
definition USD_TO_CAD_RATE :: real where "USD_TO_CAD_RATE = 1.37"
definition USD_TO_AUD_RATE :: real where "USD_TO_AUD_RATE = 1.50"
definition USD_TO_JPY_RATE :: real where "USD_TO_JPY_RATE = 157.0"
definition USD_TO_CHF_RATE :: real where "USD_TO_CHF_RATE = 0.89"

text \<open>An entry of the table: \<open>{"symbol": ..., "name": ..., "rate": ...}\<close>.\<close>

record currency =
  symbol :: string
  name :: string
  rate :: real

text \<open>
  The dictionary \<open>COUNTRY_CURRENCIES\<close>, in the order of the source. Its keys are pairwise
  different (\<open>COUNTRY_CURRENCIES_distinct\<close> below), so the first entry of a key is the
  only one and \<open>map_of\<close> is the dictionary's lookup.
\<close>

definition COUNTRY_CURRENCIES :: "(string \<times> currency) list" where
  "COUNTRY_CURRENCIES = [
    (''US'', \<lparr>symbol = ''$'', name = ''USD'', rate = 1.0\<rparr>),
    (''GB'', \<lparr>symbol = [CHR 0xC2, CHR 0xA3], name = ''GBP'', rate = USD_TO_GBP_RATE\<rparr>),
    (''CA'', \<lparr>symbol = ''C$'', name = ''CAD'', rate = USD_TO_CAD_RATE\<rparr>),
    (''DE'', \<lparr>symbol = [CHR 0xE2, CHR 0x82, CHR 0xAC], name = ''EUR'', rate = USD_TO_EUR_RATE\<rparr>),
    (''IN'', \<lparr>symbol = [CHR 0xE2, CHR 0x82, CHR 0xB9], name = ''INR'', rate = USD_TO_INR_RATE\<rparr>),
    (''FR'', \<lparr>symbol = [CHR 0xE2, CHR 0x82, CHR 0xAC], name = ''EUR'', rate = USD_TO_EUR_RATE\<rparr>),
    (''ES'', \<lparr>symbol = [CHR 0xE2, CHR 0x82, CHR 0xAC], name = ''EUR'', rate = USD_TO_EUR_RATE\<rparr>),
    (''AU'', \<lparr>symbol = ''A$'', name = ''AUD'', rate = USD_TO_AUD_RATE\<rparr>),
    (''BR'', \<lparr>symbol = ''R$'', name = ''BRL'', rate = 5.40\<rparr>),
    (''NL'', \<lparr>symbol = [CHR 0xE2, CHR 0x82, CHR 0xAC], name = ''EUR'', rate = USD_TO_EUR_RATE\<rparr>),
    (''JP'', \<lparr>symbol = [CHR 0xC2, CHR 0xA5], name = ''JPY'', rate = USD_TO_JPY_RATE\<rparr>),
    (''CH'', \<lparr>symbol = ''CHF'', name = ''CHF'', rate = USD_TO_CHF_RATE\<rparr>),
    (''IT'', \<lparr>symbol = [CHR 0xE2, CHR 0x82, CHR 0xAC], name = ''EUR'', rate = USD_TO_EUR_RATE\<rparr>),
    (''PL'', \<lparr>symbol = ''z'' @ [CHR 0xC5, CHR 0x82], name = ''PLN'', rate = 4.05\<rparr>),
    (''PT'', \<lparr>symbol = [CHR 0xE2, CHR 0x82, CHR 0xAC], name = ''EUR'', rate = USD_TO_EUR_RATE\<rparr>),
    (''MX'', \<lparr>symbol = ''$'', name = ''MXN'', rate = 18.0\<rparr>),
    (''DK'', \<lparr>symbol = ''kr'', name = ''DKK'', rate = 6.90\<rparr>),
    (''GR'', \<lparr>symbol = [CHR 0xE2, CHR 0x82, CHR 0xAC], name = ''EUR'', rate = USD_TO_EUR_RATE\<rparr>),
    (''TR'', \<lparr>symbol = [CHR 0xE2, CHR 0x82, CHR 0xBA], name = ''TRY'', rate = 32.5\<rparr>),
    (''AT'', \<lparr>symbol = [CHR 0xE2, CHR 0x82, CHR 0xAC], name = ''EUR'', rate = USD_TO_EUR_RATE\<rparr>),
    (''BE'', \<lparr>symbol = [CHR 0xE2, CHR 0x82, CHR 0xAC], name = ''EUR'', rate = USD_TO_EUR_RATE\<rparr>),
    (''IE'', \<lparr>symbol = [CHR 0xE2, CHR 0x82, CHR 0xAC], name = ''EUR'', rate = USD_TO_EUR_RATE\<rparr>),
    (''LU'', \<lparr>symbol = [CHR 0xE2, CHR 0x82, CHR 0xAC], name = ''EUR'', rate = USD_TO_EUR_RATE\<rparr>),
    (''NG'', \<lparr>symbol = [CHR 0xE2, CHR 0x82, CHR 0xA6], name = ''NGN'', rate = 1500.0\<rparr>),
    (''PK'', \<lparr>symbol = [CHR 0xE2, CHR 0x82, CHR 0xA8], name = ''PKR'', rate = 278.0\<rparr>),
    (''RU'', \<lparr>symbol = [CHR 0xE2, CHR 0x82, CHR 0xBD], name = ''RUB'', rate = 87.0\<rparr>),
    (''SG'', \<lparr>symbol = ''S$'', name = ''SGD'', rate = 1.35\<rparr>),
    (''UA'', \<lparr>symbol = [CHR 0xE2, CHR 0x82, CHR 0xB4], name = ''UAH'', rate = 40.0\<rparr>),
    (''AE'', \<lparr>symbol = [CHR 0xD8, CHR 0xAF] @ ''.'' @ [CHR 0xD8, CHR 0xA5], name = ''AED'', rate = 3.67\<rparr>),
    (''CL'', \<lparr>symbol = ''CLP'', name = ''CLP'', rate = 930.0\<rparr>),
    (''CO'', \<lparr>symbol = ''$'', name = ''COP'', rate = 4000.0\<rparr>),
    (''CY'', \<lparr>symbol = [CHR 0xE2, CHR 0x82, CHR 0xAC], name = ''EUR'', rate = USD_TO_EUR_RATE\<rparr>),
    (''CZ'', \<lparr>symbol = ''K'' @ [CHR 0xC4, CHR 0x8D], name = ''CZK'', rate = 23.0\<rparr>),
    (''EE'', \<lparr>symbol = [CHR 0xE2, CHR 0x82, CHR 0xAC], name = ''EUR'', rate = USD_TO_EUR_RATE\<rparr>),
    (''FI'', \<lparr>symbol = [CHR 0xE2, CHR 0x82, CHR 0xAC], name = ''EUR'', rate = USD_TO_EUR_RATE\<rparr>),
    (''GH'', \<lparr>symbol = [CHR 0xE2, CHR 0x82, CHR 0xB5], name = ''GHS'', rate = 15.0\<rparr>),
    (''HR'', \<lparr>symbol = [CHR 0xE2, CHR 0x82, CHR 0xAC], name = ''EUR'', rate = USD_TO_EUR_RATE\<rparr>),
    (''HU'', \<lparr>symbol = ''Ft'', name = ''HUF'', rate = 360.0\<rparr>),
    (''IR'', \<lparr>symbol = [CHR 0xEF, CHR 0xB7, CHR 0xBC], name = ''IRR'', rate = 42000.0\<rparr>),
    (''MT'', \<lparr>symbol = [CHR 0xE2, CHR 0x82, CHR 0xAC], name = ''EUR'', rate = USD_TO_EUR_RATE\<rparr>),
    (''NZ'', \<lparr>symbol = ''NZ$'', name = ''NZD'', rate = 1.63\<rparr>),
    (''PH'', \<lparr>symbol = [CHR 0xE2, CHR 0x82, CHR 0xB1], name = ''PHP'', rate = 58.0\<rparr>),
    (''PR'', \<lparr>symbol = ''$'', name = ''USD'', rate = 1.0\<rparr>),
    (''RO'', \<lparr>symbol = ''lei'', name = ''RON'', rate = 4.60\<rparr>),
    (''SI'', \<lparr>symbol = [CHR 0xE2, CHR 0x82, CHR 0xAC], name = ''EUR'', rate = USD_TO_EUR_RATE\<rparr>),
    (''SK'', \<lparr>symbol = [CHR 0xE2, CHR 0x82, CHR 0xAC], name = ''EUR'', rate = USD_TO_EUR_RATE\<rparr>),
    (''TH'', \<lparr>symbol = [CHR 0xE0, CHR 0xB8, CHR 0xBF], name = ''THB'', rate = 36.0\<rparr>),
    (''VN'', \<lparr>symbol = [CHR 0xE2, CHR 0x82, CHR 0xAB], name = ''VND'', rate = 25400.0\<rparr>)
  ]"

text \<open>
  \<open>COUNTRY_CURRENCIES.get(company_location, {"symbol": "$", "name": "USD", "rate": 1.0})\<close>
\<close>

definition local_currency_info :: "string \<Rightarrow> currency" where
  "local_currency_info company_location =
     (case map_of COUNTRY_CURRENCIES company_location of
        Some info \<Rightarrow> info
      | None \<Rightarrow> \<lparr>symbol = ''$'', name = ''USD'', rate = 1.0\<rparr>)"

text \<open>\<open>predicted_salary_local = predicted_salary_usd * local_currency_info["rate"]\<close>\<close>

definition predicted_salary_local :: "real \<Rightarrow> string \<Rightarrow> real" where
  "predicted_salary_local predicted_salary_usd company_location =
     predicted_salary_usd * rate (local_currency_info company_location)"

subsection \<open>The choices of the form\<close>

text \<open>The list the company-location select box offers: \<open>sorted([...])\<close>.\<close>

definition company_location_options :: "string list" where
  "company_location_options = sort [
    ''US'', ''GB'', ''CA'', ''DE'', ''IN'', ''FR'', ''ES'', ''AU'', ''BR'', ''NL'', ''JP'', ''CH'',
    ''IT'', ''PL'', ''PT'', ''MX'', ''DK'', ''GR'', ''TR'', ''AT'', ''BE'', ''IE'', ''LU'', ''NG'',
    ''PK'', ''RU'', ''SG'', ''UA'', ''AE'', ''CL'', ''CO'', ''CY'', ''CZ'', ''EE'', ''FI'', ''GH'',
    ''HR'', ''HU'', ''IR'', ''MT'', ''NZ'', ''PH'', ''PR'', ''RO'', ''SI'', ''SK'', ''TH'', ''VN''
  ]"

subsection \<open>Formatting numbers\<close>

text \<open>
  Python's \<open>str\<close> of a non-negative integer: its decimal digits. The digit is read
  from the table of the ten digits; the index is always below ten.
\<close>

definition digit_char :: "nat \<Rightarrow> char" where
  "digit_char d = ''0123456789'' ! d"

fun str_nat :: "nat \<Rightarrow> string" where
  "str_nat n = (if n < 10 then [digit_char n] else str_nat (n div 10) @ [digit_char (n mod 10)])"

declare str_nat.simps [simp del]

text \<open>\<open>f'{work_year}'\<close> and \<open>f'{remote_ratio}'\<close>: \<open>str\<close> of an integer.\<close>

definition str_int :: "int \<Rightarrow> string" where
  "str_int i = (if i < 0 then ''-'' @ str_nat (nat (- i)) else str_nat (nat i))"

text \<open>
  The \<open>,\<close> option of the format specification: a comma between groups of three digits,
  counted from the right. \<open>group3\<close> works on the reversed digits.
\<close>

fun group3 :: "string \<Rightarrow> string" where
  "group3 (a # b # c # d # ds) = a # b # c # CHR '','' # group3 (d # ds)"
| "group3 ds = ds"

definition thousands :: "string \<Rightarrow> string" where
  "thousands ds = rev (group3 (rev ds))"

text \<open>
  The precision \<open>.2f\<close> rounds the value to two decimals, a tie going to the even
  neighbour.
\<close>

definition round_half_even :: "real \<Rightarrow> int" where
  "round_half_even y =
     (let f = \<lfloor>y\<rfloor>; d = y - of_int f
      in if d < 1 / 2 then f else if 1 / 2 < d then f + 1 else if even f then f else f + 1)"

text \<open>\<open>f'{x:,.2f}'\<close>: sign, grouped integer part, point, two decimals.\<close>

definition format_comma_2f :: "real \<Rightarrow> string" where
  "format_comma_2f x =
     (let cents = nat (round_half_even (\<bar>x\<bar> * 100))
      in (if x < 0 then ''-'' else []) @ thousands (str_nat (cents div 100)) @ ''.'' @
         [digit_char (cents mod 100 div 10), digit_char (cents mod 10)])"

subsection \<open>The form, the feature table and the pipeline\<close>

text \<open>
  What the widgets return in one run of the script: the text input, the select boxes, the
  number input, the slider, and whether the button \<open>Predict Salary\<close> was pressed.
\<close>

record form =
  employee_name :: string
  experience_level :: string
  company_location :: string
  work_year :: int
  remote_ratio :: int
  job_title :: string
  button :: bool

text \<open>A cell of the feature table is a string or an integer; the table has named columns.\<close>

datatype cell = PyStr string | PyInt int

record DataFrame =
  columns :: "string list"
  data :: "cell list list"

text \<open>
  \<open>pd.DataFrame([[experience_level, job_title, company_location, remote_ratio, work_year]],
  columns=['experience_level', 'job_title', 'company_location', 'remote_ratio', 'work_year'])\<close>
\<close>

definition input_data :: "form \<Rightarrow> DataFrame" where
  "input_data f =
     \<lparr>columns = [''experience_level'', ''job_title'', ''company_location'', ''remote_ratio'',
                  ''work_year''],
      data = [[PyStr (experience_level f), PyStr (job_title f), PyStr (company_location f),
               PyInt (remote_ratio f), PyInt (work_year f)]]\<rparr>"

text \<open>
  The fitted pipeline is opaque to the script: \<open>predict\<close> takes a feature table and
  returns the array of predictions, or raises. An exception is the text \<open>str(e)\<close> that
  the handlers print.
\<close>

type_synonym pipeline = "DataFrame \<Rightarrow> string + real list"

text \<open>The outcome of \<open>joblib.load('salary_prediction_model.pkl')\<close>.\<close>

datatype load_result = Loaded pipeline | FileNotFoundError | OtherException string

text \<open>The subscript \<open>[0]\<close> on the array of predictions; on an empty array it raises.\<close>

definition first_element :: "real list \<Rightarrow> string + real" where
  "first_element ys =
     (case ys of
        [] \<Rightarrow> Inl ''index 0 is out of bounds for axis 0 with size 0''
      | y # _ \<Rightarrow> Inr y)"

subsection \<open>The calls of one run\<close>

text \<open>
  The calls that a run of the script makes, in the order it makes them. \<open>Render_page\<close>
  stands for the layout between the loading of the model and the button (style sheet,
  title, the widgets of the form, the confirmation section), \<open>Render_footer\<close> for the
  rule and the note that end the page.
\<close>

datatype st_call =
    Set_page_config
  | St_success string
  | St_error string
  | St_stop
  | St_warning string
  | Render_page
  | St_spinner string
  | Time_sleep nat
  | Model_predict DataFrame
  | St_markdown string
  | St_balloons
  | Render_footer

subsection \<open>The output string\<close>

definition NL :: string where
  "NL = [CHR 0x0A]"

text \<open>The rupee sign, U+20B9, in UTF-8.\<close>

definition RUPEE :: string where
  "RUPEE = [CHR 0xE2, CHR 0x82, CHR 0xB9]"

text \<open>
  The script appends the currency lines to \<open>output_string\<close> one after the other; here
  each is a function, and \<open>currency_lines\<close> is the list of the lines appended.
\<close>

definition usd_line :: "real \<Rightarrow> string" where
  \<open>usd_line predicted_salary_usd =
     ''<br>$'' @ format_comma_2f predicted_salary_usd @
     ''<span class="currency-text"> (USD)</span>''\<close>

definition inr_line :: "real \<Rightarrow> string" where
  \<open>inr_line predicted_salary_usd =
     ''<br>'' @ RUPEE @ format_comma_2f (predicted_salary_usd * USD_TO_INR_RATE) @
     ''<span class="currency-text"> (INR)</span>''\<close>

definition local_line :: "currency \<Rightarrow> real \<Rightarrow> string" where
  \<open>local_line info salary_local =
     ''<br>'' @ symbol info @ format_comma_2f salary_local @
     ''<span class="currency-text"> ('' @ name info @ '')</span>''\<close>

definition currency_lines :: "real \<Rightarrow> string \<Rightarrow> string list" where
  "currency_lines predicted_salary_usd location =
     (let info = local_currency_info location;
          salary_local = predicted_salary_local predicted_salary_usd location
      in [usd_line predicted_salary_usd, inr_line predicted_salary_usd] @
         (if name info \<noteq> ''USD'' \<and> name info \<noteq> ''INR''
          then [local_line info salary_local] else []))"

definition input_summary :: "form \<Rightarrow> string" where
  \<open>input_summary f =
     NL @ ''            <div class="input-summary">'' @
     NL @ ''                <p>Based on your inputs:</p>'' @
     NL @ ''                <ul>'' @
     NL @ ''                    <li>Experience Level: <b>'' @ experience_level f @ ''</b></li>'' @
     NL @ ''                    <li>Job Title: <b>'' @ job_title f @ ''</b></li>'' @
     NL @ ''                    <li>Company Location: <b>'' @ company_location f @ ''</b></li>'' @
     NL @ ''                    <li>Work Year: <b>'' @ str_int (work_year f) @ ''</b></li>'' @
     NL @ ''                    <li>Remote Ratio: <b>'' @ str_int (remote_ratio f) @ ''%</b></li>'' @
     NL @ ''                </ul>'' @
     NL @ ''            </div>'' @
     NL @ ''            ''\<close>

definition output_string :: "form \<Rightarrow> real \<Rightarrow> string" where
  \<open>output_string f predicted_salary_usd =
     ''<div class="prediction-output">Predicted Salary for '' @ employee_name f @ '':'' @
     concat (currency_lines predicted_salary_usd (company_location f)) @
     input_summary f @
     ''</div>''\<close>

subsection \<open>The output string over the operations on floats\<close>

text \<open>
  The same lines with the arithmetic of Python as a parameter: \<open>fmul\<close> is the product of
  two floats, \<open>literal\<close> the float that a decimal literal of the source denotes (the rates
  of the table are such literals), \<open>format_2f\<close> the formatting \<open>f'{x:,.2f}'\<close>.
\<close>

record 'f float_ops =
  fmul :: "'f \<Rightarrow> 'f \<Rightarrow> 'f"
  literal :: "real \<Rightarrow> 'f"
  format_2f :: "'f \<Rightarrow> string"

definition float_salary_local :: "'f float_ops \<Rightarrow> 'f \<Rightarrow> string \<Rightarrow> 'f" where
  "float_salary_local ops predicted_salary_usd location =
     fmul ops predicted_salary_usd (literal ops (rate (local_currency_info location)))"

definition float_usd_line :: "'f float_ops \<Rightarrow> 'f \<Rightarrow> string" where
  \<open>float_usd_line ops predicted_salary_usd =
     ''<br>$'' @ format_2f ops predicted_salary_usd @
     ''<span class="currency-text"> (USD)</span>''\<close>

definition float_inr_line :: "'f float_ops \<Rightarrow> 'f \<Rightarrow> string" where
  \<open>float_inr_line ops predicted_salary_usd =
     ''<br>'' @ RUPEE @
     format_2f ops (fmul ops predicted_salary_usd (literal ops USD_TO_INR_RATE)) @
     ''<span class="currency-text"> (INR)</span>''\<close>

definition float_local_line :: "'f float_ops \<Rightarrow> currency \<Rightarrow> 'f \<Rightarrow> string" where
  \<open>float_local_line ops info salary_local =
     ''<br>'' @ symbol info @ format_2f ops salary_local @
     ''<span class="currency-text"> ('' @ name info @ '')</span>''\<close>

definition float_currency_lines :: "'f float_ops \<Rightarrow> 'f \<Rightarrow> string \<Rightarrow> string list" where
  "float_currency_lines ops predicted_salary_usd location =
     (let info = local_currency_info location;
          salary_local = float_salary_local ops predicted_salary_usd location
      in [float_usd_line ops predicted_salary_usd, float_inr_line ops predicted_salary_usd] @
         (if name info \<noteq> ''USD'' \<and> name info \<noteq> ''INR''
          then [float_local_line ops info salary_local] else []))"

definition float_output_string :: "'f float_ops \<Rightarrow> form \<Rightarrow> 'f \<Rightarrow> string" where
  \<open>float_output_string ops f predicted_salary_usd =
     ''<div class="prediction-output">Predicted Salary for '' @ employee_name f @ '':'' @
     concat (float_currency_lines ops predicted_salary_usd (company_location f)) @
     input_summary f @
     ''</div>''\<close>

text \<open>The operations of the functions on reals above: exact product, exact literal.\<close>

definition exact_ops :: "real float_ops" where
  "exact_ops = \<lparr>fmul = (\<lambda>x y. x * y), literal = (\<lambda>r. r), format_2f = format_comma_2f\<rparr>"

subsection \<open>The script\<close>

text \<open>The handler \<open>except Exception as e\<close> around the prediction.\<close>

definition prediction_failed :: "string \<Rightarrow> st_call list" where
  "prediction_failed e =
     [St_error (''An error occurred during prediction: '' @ e),
      St_warning ''Please check your input values and ensure the model is correctly trained for these features.'']"

text \<open>
  The branch of a submission with a name: the feature table, the spinner, the delay, the
  call of \<open>predict\<close>, and then either the rendered result or the handler.
\<close>

definition predict_salary :: "pipeline \<Rightarrow> form \<Rightarrow> st_call list" where
  "predict_salary model_pipeline f =
     [St_spinner ''Calculating salary...'', Time_sleep 1, Model_predict (input_data f)] @
     (case model_pipeline (input_data f) of
        Inl e \<Rightarrow> prediction_failed e
      | Inr ys \<Rightarrow>
          (case first_element ys of
             Inl e \<Rightarrow> prediction_failed e
           | Inr predicted_salary_usd \<Rightarrow>
               [St_markdown (output_string f predicted_salary_usd), St_balloons]))"

text \<open>\<open>if st.button("Predict Salary"):\<close> with the check of the employee name.\<close>

definition on_button :: "pipeline \<Rightarrow> form \<Rightarrow> st_call list" where
  "on_button model_pipeline f =
     (if button f
      then (if employee_name f = []
            then [St_warning ''Please enter the Employee Name.'']
            else predict_salary model_pipeline f)
      else [])"

text \<open>
  One run of \<open>app.py\<close>, from the result of loading the model and the values of the
  widgets. After \<open>st.stop()\<close> nothing more of the script runs.
\<close>

definition app :: "load_result \<Rightarrow> form \<Rightarrow> st_call list" where
  \<open>app loaded f =
     Set_page_config #
     (case loaded of
        FileNotFoundError \<Rightarrow>
          [St_error ''Error: Model file 'salary_prediction_model.pkl' not found. Please ensure your trained model is saved and accessible in the same directory.'',
           St_stop]
      | OtherException e \<Rightarrow> [St_error (''Error loading the model: '' @ e), St_stop]
      | Loaded model_pipeline \<Rightarrow>
          [St_success ''Machine Learning model loaded successfully!'', Render_page] @
          on_button model_pipeline f @ [Render_footer])\<close>

text \<open>
  Streamlit runs the script again from the top at every interaction, and the script loads
  the model at its top level without a cache: a session is a sequence of runs, each with
  the result of its own load and the values of its widgets.
\<close>

fun session :: "(load_result \<times> form) list \<Rightarrow> st_call list" where
  "session [] = []"
| "session ((loaded, f) # runs) = app loaded f @ session runs"

subsection \<open>Reading the trace and the page\<close>

text \<open>The feature tables on which \<open>predict\<close> was called, in order.\<close>

fun predict_calls :: "st_call list \<Rightarrow> DataFrame list" where
  "predict_calls [] = []"
| "predict_calls (Model_predict d # cs) = d # predict_calls cs"
| "predict_calls (c # cs) = predict_calls cs"

text \<open>The strings rendered by \<open>st.markdown(output_string, unsafe_allow_html=True)\<close>.\<close>

fun rendered :: "st_call list \<Rightarrow> string list" where
  "rendered [] = []"
| "rendered (St_markdown s # cs) = s # rendered cs"
| "rendered (c # cs) = rendered cs"

text \<open>The calls made after the first call of \<open>predict\<close>, and the delays slept.\<close>

fun after_predict :: "st_call list \<Rightarrow> st_call list" where
  "after_predict [] = []"
| "after_predict (Model_predict d # cs) = cs"
| "after_predict (c # cs) = after_predict cs"

fun sleep_calls :: "st_call list \<Rightarrow> nat list" where
  "sleep_calls [] = []"
| "sleep_calls (Time_sleep n # cs) = n # sleep_calls cs"
| "sleep_calls (c # cs) = sleep_calls cs"

text \<open>
  The text a browser shows for a fragment of HTML: what is outside the tags. The flag
  says whether the reader is inside a tag.
\<close>

fun strip_tags :: "bool \<Rightarrow> string \<Rightarrow> string" where
  "strip_tags in_tag [] = []"
| "strip_tags in_tag (c # cs) =
     (if c = CHR ''<'' then strip_tags True cs
      else if in_tag then strip_tags (c \<noteq> CHR ''>'') cs
      else c # strip_tags False cs)"

definition visible_text :: "string \<Rightarrow> string" where
  "visible_text s = strip_tags False s"

subsection \<open>An example submission\<close>

text \<open>
  A senior data scientist in India, half remote, in 2024, under the name of the form's
  placeholder; and a pipeline that predicts 100000 dollars for every feature table.
\<close>

definition example_request :: form where
  "example_request =
     \<lparr>employee_name = ''Jane Doe'', experience_level = ''Senior'', company_location = ''IN'',
      work_year = 2024, remote_ratio = 50, job_title = ''Data Scientist'', button = True\<rparr>"

definition stub_model :: pipeline where
  "stub_model = (\<lambda>table. Inr [100000])"

section \<open>Properties\<close>

subsection \<open>Lookups in the currency table\<close>

lemma COUNTRY_CURRENCIES_distinct: "distinct (map fst COUNTRY_CURRENCIES)"
  by (simp add: COUNTRY_CURRENCIES_def)

lemma lookup_US: "local_currency_info ''US'' = \<lparr>symbol = ''$'', name = ''USD'', rate = 1\<rparr>"
  by (simp add: local_currency_info_def COUNTRY_CURRENCIES_def)

lemma lookup_IN: "local_currency_info ''IN'' = \<lparr>symbol = RUPEE, name = ''INR'', rate = 83.5\<rparr>"
  by (simp add: local_currency_info_def COUNTRY_CURRENCIES_def RUPEE_def USD_TO_INR_RATE_def)

lemma lookup_PR: "local_currency_info ''PR'' = \<lparr>symbol = ''$'', name = ''USD'', rate = 1\<rparr>"
  by (simp add: local_currency_info_def COUNTRY_CURRENCIES_def)


lemma lookup_ZZ: "map_of COUNTRY_CURRENCIES ''ZZ'' = None"
  by (simp add: COUNTRY_CURRENCIES_def)

subsection \<open>The currency lines\<close>

lemma currency_lines_USD_or_INR:
  assumes "name (local_currency_info code) = ''USD'' \<or> name (local_currency_info code) = ''INR''"
  shows "currency_lines usd code = [usd_line usd, inr_line usd]"
  using assms by (auto simp add: currency_lines_def Let_def)

subsection \<open>The trace of a submission\<close>

lemma app_submit:
  assumes "button f" and "employee_name f \<noteq> []"
  shows "app (Loaded m) f =
     [Set_page_config, St_success ''Machine Learning model loaded successfully!'', Render_page,
      St_spinner ''Calculating salary...'', Time_sleep 1, Model_predict (input_data f)] @
     (case m (input_data f) of
        Inl e \<Rightarrow> prediction_failed e
      | Inr ys \<Rightarrow> (case first_element ys of
             Inl e \<Rightarrow> prediction_failed e
           | Inr usd \<Rightarrow> [St_markdown (output_string f usd), St_balloons])) @
     [Render_footer]"
  using assms by (simp add: app_def on_button_def predict_salary_def)

lemma predict_calls_append: "predict_calls (xs @ ys) = predict_calls xs @ predict_calls ys"
  by (induction xs rule: predict_calls.induct) simp_all

lemma rendered_append: "rendered (xs @ ys) = rendered xs @ rendered ys"
  by (induction xs rule: rendered.induct) simp_all

lemma predict_calls_failed: "predict_calls (prediction_failed e) = []"
  by (simp add: prediction_failed_def)

lemma predict_calls_submit:
  assumes "button f" and "employee_name f \<noteq> []"
  shows "predict_calls (app (Loaded m) f) = [input_data f]"
  using assms
  by (simp add: app_submit predict_calls_append predict_calls_failed split: sum.split)

subsection \<open>Claims about the currency conversion\<close>

text \<open>
  C2. For the codes US and IN the currency lines are the USD line and the INR line and
  nothing else: no local line is appended, so the output string of a submission from
  either country holds each of the two lines once.
\<close>

theorem local_line_suppressed_US_IN:
  assumes "company_location f = ''US'' \<or> company_location f = ''IN''"
  shows \<open>currency_lines usd ''US'' = [usd_line usd, inr_line usd]
       \<and> currency_lines usd ''IN'' = [usd_line usd, inr_line usd]
       \<and> output_string f usd =
           ''<div class="prediction-output">Predicted Salary for '' @ employee_name f @ '':'' @
           usd_line usd @ inr_line usd @ input_summary f @ ''</div>''\<close>
proof -
  have us: "currency_lines usd ''US'' = [usd_line usd, inr_line usd]"
    by (rule currency_lines_USD_or_INR) (simp add: lookup_US)
  have ind: "currency_lines usd ''IN'' = [usd_line usd, inr_line usd]"
    by (rule currency_lines_USD_or_INR) (simp add: lookup_IN)
  from assms us ind
  have "currency_lines usd (company_location f) = [usd_line usd, inr_line usd]"
    by auto
  with us ind show ?thesis
    by (simp add: output_string_def)
qed

theorem local_line_suppressed_US_IN_witness:
  \<open>company_location example_request = ''IN''
   \<and> currency_lines 100000 ''US'' = [usd_line 100000, inr_line 100000]
   \<and> currency_lines 100000 ''IN'' = [usd_line 100000, inr_line 100000]
   \<and> output_string example_request 100000 =
       ''<div class="prediction-output">Predicted Salary for Jane Doe:'' @
       usd_line 100000 @ inr_line 100000 @ input_summary example_request @ ''</div>''\<close>
proof -
  have loc: "company_location example_request = ''IN''"
    by (simp add: example_request_def)
  have nm: "employee_name example_request = ''Jane Doe''"
    by (simp add: example_request_def)
  from loc have "company_location example_request = ''US'' \<or> company_location example_request = ''IN''"
    by simp
  from local_line_suppressed_US_IN [OF this, of 100000] loc nm show ?thesis
    by simp
qed

text \<open>
  C3. For a code that is not a key of the table the lookup returns the default entry,
  symbol \<open>$\<close>, name USD, rate 1, so the local salary is the salary in USD; the run
  renders the result and reports no error.
\<close>

theorem unmapped_code_defaults_to_USD:
  assumes "map_of COUNTRY_CURRENCIES code = None"
  shows "local_currency_info code = \<lparr>symbol = ''$'', name = ''USD'', rate = 1\<rparr>
       \<and> predicted_salary_local usd code = usd
       \<and> currency_lines usd code = [usd_line usd, inr_line usd]
       \<and> (button f \<and> employee_name f \<noteq> [] \<and> company_location f = code
            \<and> m (input_data f) = Inr (usd # ys) \<longrightarrow>
           app (Loaded m) f =
             [Set_page_config, St_success ''Machine Learning model loaded successfully!'',
              Render_page, St_spinner ''Calculating salary...'', Time_sleep 1,
              Model_predict (input_data f), St_markdown (output_string f usd), St_balloons,
              Render_footer])"
proof -
  from assms have info: "local_currency_info code = \<lparr>symbol = ''$'', name = ''USD'', rate = 1\<rparr>"
    by (simp add: local_currency_info_def)
  then have "predicted_salary_local usd code = usd"
    by (simp add: predicted_salary_local_def)
  moreover from info have "currency_lines usd code = [usd_line usd, inr_line usd]"
    by (intro currency_lines_USD_or_INR) simp
  ultimately show ?thesis
    using info by (simp add: app_submit first_element_def)
qed

theorem unmapped_code_defaults_to_USD_witness:
  "map_of COUNTRY_CURRENCIES ''ZZ'' = None
   \<and> local_currency_info ''ZZ'' = \<lparr>symbol = ''$'', name = ''USD'', rate = 1\<rparr>
   \<and> predicted_salary_local 100000 ''ZZ'' = 100000
   \<and> currency_lines 100000 ''ZZ'' = [usd_line 100000, inr_line 100000]"
  using unmapped_code_defaults_to_USD [OF lookup_ZZ, of 100000] lookup_ZZ
  by simp

subsection \<open>The example, evaluated\<close>

lemma format_100000: "format_comma_2f 100000 = ''100,000.00''"
  by (simp add: format_comma_2f_def round_half_even_def Let_def thousands_def str_nat.simps
      digit_char_def)

lemma format_8350000: "format_comma_2f (100000 * USD_TO_INR_RATE) = ''8,350,000.00''"
  by (simp add: format_comma_2f_def round_half_even_def Let_def thousands_def str_nat.simps
      digit_char_def USD_TO_INR_RATE_def)

lemma usd_line_100000:
  \<open>usd_line 100000 = ''<br>$100,000.00<span class="currency-text"> (USD)</span>''\<close>
  by (simp add: usd_line_def format_100000)

lemma inr_line_100000:
  \<open>inr_line 100000 = ''<br>'' @ RUPEE @ ''8,350,000.00<span class="currency-text"> (INR)</span>''\<close>
  by (simp add: inr_line_def format_8350000)

lemma visible_usd_line_100000: "visible_text (usd_line 100000) = ''$100,000.00 (USD)''"
  by (simp add: usd_line_100000 visible_text_def)

lemma visible_inr_line_100000:
  "visible_text (inr_line 100000) = RUPEE @ ''8,350,000.00 (INR)''"
  by (simp add: inr_line_100000 visible_text_def RUPEE_def)

lemma rendered_failed: "rendered (prediction_failed e) = []"
  by (simp add: prediction_failed_def)

lemma sleep_calls_failed: "sleep_calls (prediction_failed e) = []"
  by (simp add: prediction_failed_def)

lemma sleep_calls_append: "sleep_calls (xs @ ys) = sleep_calls xs @ sleep_calls ys"
  by (induction xs rule: sleep_calls.induct) simp_all

lemma app_empty_name:
  assumes "button f" and "employee_name f = []"
  shows "app (Loaded m) f =
     [Set_page_config, St_success ''Machine Learning model loaded successfully!'', Render_page,
      St_warning ''Please enter the Employee Name.'', Render_footer]"
  using assms by (simp add: app_def on_button_def)

lemma app_rendered:
  assumes "button f" and "employee_name f \<noteq> []" and "m (input_data f) = Inr (y # ys)"
  shows "app (Loaded m) f =
     [Set_page_config, St_success ''Machine Learning model loaded successfully!'', Render_page,
      St_spinner ''Calculating salary...'', Time_sleep 1, Model_predict (input_data f),
      St_markdown (output_string f y), St_balloons, Render_footer]"
  using assms by (simp add: app_submit first_element_def)

lemma example_request_fields:
  "button example_request" "employee_name example_request \<noteq> []"
  "company_location example_request = ''IN''"
  by (simp_all add: example_request_def)

lemma stub_model_predicts: "stub_model table = Inr [100000]"
  by (simp add: stub_model_def)

lemma app_example:
  "app (Loaded stub_model) example_request =
     [Set_page_config, St_success ''Machine Learning model loaded successfully!'', Render_page,
      St_spinner ''Calculating salary...'', Time_sleep 1, Model_predict (input_data example_request),
      St_markdown (output_string example_request 100000), St_balloons, Render_footer]"
  by (rule app_rendered) (simp_all add: example_request_fields stub_model_predicts)

subsection \<open>The conversion over the operations on floats\<close>

lemma exact_currency_lines: "float_currency_lines exact_ops usd code = currency_lines usd code"
  by (simp add: float_currency_lines_def currency_lines_def exact_ops_def Let_def
      float_salary_local_def predicted_salary_local_def float_usd_line_def usd_line_def
      float_inr_line_def inr_line_def float_local_line_def local_line_def)

lemma exact_output_string: "float_output_string exact_ops f usd = output_string f usd"
  by (simp add: float_output_string_def output_string_def exact_currency_lines)





subsection \<open>Claims about a run of the script\<close>

text \<open>
  C4. The example of the specification: a senior data scientist in India, half remote, in
  2024, any non-empty name, and a pipeline that returns 100000 for the request. The rate of
  IN in the table is 83.5; the run renders one output string; it holds the USD line
  \<open>$100,000.00 (USD)\<close> and the INR line with the rupee sign and \<open>8,350,000.00 (INR)\<close>,
  and the currency lines are these two and no third.
\<close>

theorem example_IN_100000:
  assumes "employee_name f \<noteq> []" and "button f" and "company_location f = ''IN''"
    and "experience_level f = ''Senior''" and "job_title f = ''Data Scientist''"
    and "remote_ratio f = 50" and "work_year f = 2024"
    and "m (input_data f) = Inr [100000]"
  shows \<open>rate (local_currency_info ''IN'') = 83.5
       \<and> rendered (app (Loaded m) f) = [output_string f 100000]
       \<and> output_string f 100000 =
           ''<div class="prediction-output">Predicted Salary for '' @ employee_name f @
           '':<br>$100,000.00<span class="currency-text"> (USD)</span><br>'' @ RUPEE @
           ''8,350,000.00<span class="currency-text"> (INR)</span>'' @
           input_summary f @ ''</div>''
       \<and> map visible_text (currency_lines 100000 (company_location f)) =
           [''$100,000.00 (USD)'', RUPEE @ ''8,350,000.00 (INR)'']\<close>
proof -
  have lines: "currency_lines 100000 ''IN'' = [usd_line 100000, inr_line 100000]"
    by (rule currency_lines_USD_or_INR) (simp add: lookup_IN)
  have "rendered (app (Loaded m) f) = [output_string f 100000]"
    using assms by (simp add: app_rendered)
  moreover have "rate (local_currency_info ''IN'') = 83.5"
    by (simp add: lookup_IN)
  moreover have \<open>output_string f 100000 =
           ''<div class="prediction-output">Predicted Salary for '' @ employee_name f @
           '':<br>$100,000.00<span class="currency-text"> (USD)</span><br>'' @ RUPEE @
           ''8,350,000.00<span class="currency-text"> (INR)</span>'' @
           input_summary f @ ''</div>''\<close>
    using assms(3) by (simp add: output_string_def lines usd_line_100000 inr_line_100000)
  moreover have "map visible_text (currency_lines 100000 (company_location f)) =
           [''$100,000.00 (USD)'', RUPEE @ ''8,350,000.00 (INR)'']"
    using assms(3) by (simp add: lines visible_usd_line_100000 visible_inr_line_100000)
  ultimately show ?thesis
    by simp
qed

theorem example_IN_100000_witness:
  \<open>rendered (app (Loaded stub_model) example_request) = [output_string example_request 100000]
   \<and> output_string example_request 100000 =
       ''<div class="prediction-output">Predicted Salary for Jane Doe'' @
       '':<br>$100,000.00<span class="currency-text"> (USD)</span><br>'' @ RUPEE @
       ''8,350,000.00<span class="currency-text"> (INR)</span>'' @
       input_summary example_request @ ''</div>''
   \<and> map visible_text (currency_lines 100000 ''IN'') =
       [''$100,000.00 (USD)'', RUPEE @ ''8,350,000.00 (INR)'']\<close>
proof -
  have "employee_name example_request \<noteq> []" "button example_request"
    "company_location example_request = ''IN''" "experience_level example_request = ''Senior''"
    "job_title example_request = ''Data Scientist''" "remote_ratio example_request = 50"
    "work_year example_request = 2024" "stub_model (input_data example_request) = Inr [100000]"
    by (simp_all add: example_request_def stub_model_def)
  from example_IN_100000 [of example_request stub_model, OF this]
  show ?thesis
    by (simp add: example_request_def)
qed

text \<open>
  C5. A submission with an empty employee name: the run shows the warning, calls
  \<open>predict\<close> on nothing and renders no result, whatever the loading of the model gave.
\<close>

theorem empty_name_warns_without_prediction:
  assumes "button f" and "employee_name f = []"
  shows "app (Loaded m) f =
           [Set_page_config, St_success ''Machine Learning model loaded successfully!'',
            Render_page, St_warning ''Please enter the Employee Name.'', Render_footer]
       \<and> predict_calls (app loaded f) = []
       \<and> rendered (app loaded f) = []"
proof -
  have "predict_calls (app loaded f) = [] \<and> rendered (app loaded f) = []"
    using assms by (cases loaded) (simp_all add: app_def on_button_def)
  with assms show ?thesis
    by (simp add: app_empty_name)
qed

theorem empty_name_warns_without_prediction_witness:
  "button (example_request\<lparr>employee_name := []\<rparr>)
   \<and> employee_name (example_request\<lparr>employee_name := []\<rparr>) = []
   \<and> app (Loaded stub_model) (example_request\<lparr>employee_name := []\<rparr>) =
       [Set_page_config, St_success ''Machine Learning model loaded successfully!'',
        Render_page, St_warning ''Please enter the Employee Name.'', Render_footer]
   \<and> predict_calls (app (Loaded stub_model) (example_request\<lparr>employee_name := []\<rparr>)) = []
   \<and> rendered (app (Loaded stub_model) (example_request\<lparr>employee_name := []\<rparr>)) = []"
proof -
  have b: "button (example_request\<lparr>employee_name := []\<rparr>)"
    and n: "employee_name (example_request\<lparr>employee_name := []\<rparr>) = []"
    by (simp_all add: example_request_def)
  from empty_name_warns_without_prediction [OF b n, of stub_model "Loaded stub_model"] b n
  show ?thesis
    by simp
qed

text \<open>
  C6. A submission with a non-empty name calls \<open>predict\<close> once, on the feature table of
  one row whose columns are experience_level, job_title, company_location, remote_ratio,
  work_year, in this order; when the call returns a non-empty array, its first element is
  the salary in USD of the rendered output.
\<close>

theorem named_submission_predicts_on_feature_row:
  assumes "button f" and "employee_name f \<noteq> []"
  shows "predict_calls (app (Loaded m) f) = [input_data f]
       \<and> columns (input_data f) =
           [''experience_level'', ''job_title'', ''company_location'', ''remote_ratio'',
            ''work_year'']
       \<and> data (input_data f) =
           [[PyStr (experience_level f), PyStr (job_title f), PyStr (company_location f),
             PyInt (remote_ratio f), PyInt (work_year f)]]
       \<and> (\<forall>y ys. m (input_data f) = Inr (y # ys) \<longrightarrow>
             rendered (app (Loaded m) f) = [output_string f y])"
  using assms
  by (simp add: predict_calls_submit input_data_def app_rendered)

theorem named_submission_predicts_on_feature_row_witness:
  "button example_request \<and> employee_name example_request \<noteq> []
   \<and> predict_calls (app (Loaded stub_model) example_request) = [input_data example_request]
   \<and> data (input_data example_request) =
       [[PyStr ''Senior'', PyStr ''Data Scientist'', PyStr ''IN'', PyInt 50, PyInt 2024]]
   \<and> rendered (app (Loaded stub_model) example_request) = [output_string example_request 100000]"
  using named_submission_predicts_on_feature_row
      [OF example_request_fields(1) example_request_fields(2), of stub_model]
    example_request_fields
  by (simp add: stub_model_def example_request_def)

text \<open>
  C7, as the specification states it: after a failed load the process is halted and no
  prediction is ever attempted. In a session of two runs, the first with the file of the
  model missing and the second with the model loaded, the second run renders the page and
  calls \<open>predict\<close>.
\<close>

theorem process_halts_counterexample:
  "predict_calls (session [(FileNotFoundError, example_request),
                           (Loaded stub_model, example_request)]) \<noteq> []
   \<and> Render_page \<in> set (session [(FileNotFoundError, example_request),
                                 (Loaded stub_model, example_request)])"
  by (simp add: app_example predict_calls_append)

text \<open>
  C7, amended. When the file of the model is missing, or loading it raises another
  exception, the run shows an error message and stops: in that run the page with the form
  is not rendered and \<open>predict\<close> is not called. The session goes on: the calls of the
  later runs follow those of the stopped run, each run loading the model again.
\<close>

theorem load_failure_stops_the_run:
  \<open>app FileNotFoundError f =
     [Set_page_config,
      St_error ''Error: Model file 'salary_prediction_model.pkl' not found. Please ensure your trained model is saved and accessible in the same directory.'',
      St_stop]
   \<and> app (OtherException e) f =
       [Set_page_config, St_error (''Error loading the model: '' @ e), St_stop]
   \<and> Render_page \<notin> set (app FileNotFoundError f)
   \<and> Render_page \<notin> set (app (OtherException e) f)
   \<and> predict_calls (app FileNotFoundError f) = []
   \<and> predict_calls (app (OtherException e) f) = []
   \<and> session ((FileNotFoundError, f) # runs) = app FileNotFoundError f @ session runs
   \<and> session ((OtherException e, f) # runs) = app (OtherException e) f @ session runs
   \<and> predict_calls (session ((FileNotFoundError, f) # runs)) = predict_calls (session runs)
   \<and> predict_calls (session ((OtherException e, f) # runs)) = predict_calls (session runs)\<close>
  by (simp add: app_def predict_calls_append)

theorem load_failure_stops_the_run_witness:
  \<open>app (OtherException ''invalid load key'') example_request =
     [Set_page_config, St_error ''Error loading the model: invalid load key'', St_stop]
   \<and> predict_calls (app FileNotFoundError example_request) = []
   \<and> predict_calls (app (OtherException ''invalid load key'') example_request) = []
   \<and> predict_calls (session [(FileNotFoundError, example_request),
                              (Loaded stub_model, example_request)]) =
       [input_data example_request]\<close>
proof -
  have later: "predict_calls (session [(Loaded stub_model, example_request)]) =
      [input_data example_request]"
    by (simp add: app_example)
  from load_failure_stops_the_run
      [of example_request "''invalid load key''" "[(Loaded stub_model, example_request)]"] later
  show ?thesis
    by simp
qed

text \<open>
  C8, as the specification states it: the call of \<open>predict\<close> is followed immediately by
  a delay of one second. In the run of the example no delay follows the call; the delay
  comes immediately before it.
\<close>

theorem delay_after_predict_counterexample:
  "\<not> sublist [Model_predict (input_data example_request), Time_sleep 1]
        (app (Loaded stub_model) example_request)
   \<and> sleep_calls (after_predict (app (Loaded stub_model) example_request)) = []
   \<and> sublist [Time_sleep 1, Model_predict (input_data example_request)]
        (app (Loaded stub_model) example_request)"
  by (simp add: app_example sublist_code)

text \<open>
  C8, amended. On a submission with a non-empty name the script sleeps one second and
  immediately afterwards calls \<open>predict\<close>: one delay, one call, the delay first, and no
  delay after the call.
\<close>

theorem delay_before_predict:
  assumes "button f" and "employee_name f \<noteq> []"
  shows "sublist [Time_sleep 1, Model_predict (input_data f)] (app (Loaded m) f)
       \<and> predict_calls (app (Loaded m) f) = [input_data f]
       \<and> sleep_calls (app (Loaded m) f) = [1]
       \<and> sleep_calls (after_predict (app (Loaded m) f)) = []"
proof -
  let ?tail = "(case m (input_data f) of
        Inl e \<Rightarrow> prediction_failed e
      | Inr ys \<Rightarrow> (case first_element ys of
             Inl e \<Rightarrow> prediction_failed e
           | Inr usd \<Rightarrow> [St_markdown (output_string f usd), St_balloons])) @ [Render_footer]"
  have run: "app (Loaded m) f =
     [Set_page_config, St_success ''Machine Learning model loaded successfully!'', Render_page,
      St_spinner ''Calculating salary...''] @ [Time_sleep 1, Model_predict (input_data f)] @ ?tail"
    using assms by (simp add: app_submit)
  have quiet: "sleep_calls ?tail = []"
    by (simp add: sleep_calls_append sleep_calls_failed split: sum.split)
  have "sublist [Time_sleep 1, Model_predict (input_data f)] (app (Loaded m) f)"
    unfolding run by (rule sublist_appendI)
  moreover have "sleep_calls (app (Loaded m) f) = [1]"
    unfolding run using quiet by (simp add: sleep_calls_append)
  moreover have "after_predict (app (Loaded m) f) = ?tail"
    unfolding run by simp
  ultimately show ?thesis
    using assms quiet by (simp add: predict_calls_submit)
qed

theorem delay_before_predict_witness:
  "button example_request \<and> employee_name example_request \<noteq> []
   \<and> sublist [Time_sleep 1, Model_predict (input_data example_request)]
        (app (Loaded stub_model) example_request)
   \<and> predict_calls (app (Loaded stub_model) example_request) = [input_data example_request]
   \<and> sleep_calls (app (Loaded stub_model) example_request) = [1]
   \<and> sleep_calls (after_predict (app (Loaded stub_model) example_request)) = []"
  using delay_before_predict
      [OF example_request_fields(1) example_request_fields(2), of stub_model]
    example_request_fields
  by simp

subsection \<open>Claims about the table and the form\<close>

text \<open>
  C9. Every country code that the select box of the company location offers is a key of
  the currency table, so the lookup returns the entry of the table and never the default.
\<close>

theorem options_have_table_entries:
  "\<forall>code \<in> set company_location_options.
     \<exists>info. map_of COUNTRY_CURRENCIES code = Some info \<and> local_currency_info code = info"
  unfolding company_location_options_def set_sort local_currency_info_def
  by (simp add: COUNTRY_CURRENCIES_def)

theorem options_have_table_entries_witness:
  "''IN'' \<in> set company_location_options
   \<and> (\<exists>info. map_of COUNTRY_CURRENCIES ''IN'' = Some info \<and> local_currency_info ''IN'' = info)"
proof -
  have "''IN'' \<in> set company_location_options"
    unfolding company_location_options_def set_sort by simp
  with options_have_table_entries show ?thesis
    by blast
qed

text \<open>
  C10. The local line is suppressed by the name of the currency, not by the country code:
  whenever the entry found is named USD the currency lines are the USD line and the INR
  line. The entry of PR is named USD with rate 1, so the currency lines of PR are those of
  US for the same salary.
\<close>

theorem PR_suppressed_like_US:
  "local_currency_info ''PR'' = \<lparr>symbol = ''$'', name = ''USD'', rate = 1\<rparr>
   \<and> currency_lines usd ''PR'' = [usd_line usd, inr_line usd]
   \<and> currency_lines usd ''PR'' = currency_lines usd ''US''
   \<and> (\<forall>code. name (local_currency_info code) = ''USD'' \<longrightarrow>
         currency_lines usd code = [usd_line usd, inr_line usd])"
proof -
  have pr: "currency_lines usd ''PR'' = [usd_line usd, inr_line usd]"
    by (rule currency_lines_USD_or_INR) (simp add: lookup_PR)
  have us: "currency_lines usd ''US'' = [usd_line usd, inr_line usd]"
    by (rule currency_lines_USD_or_INR) (simp add: lookup_US)
  from pr us show ?thesis
    by (simp add: lookup_PR currency_lines_USD_or_INR)
qed

theorem PR_suppressed_like_US_witness:
  "name (local_currency_info ''PR'') = ''USD''
   \<and> currency_lines 100000 ''PR'' = [usd_line 100000, inr_line 100000]
   \<and> currency_lines 100000 ''PR'' = currency_lines 100000 ''US''"
proof -
  from PR_suppressed_like_US [of 100000]
  have entry: "local_currency_info ''PR'' = \<lparr>symbol = ''$'', name = ''USD'', rate = 1\<rparr>"
    and lines: "currency_lines 100000 ''PR'' = [usd_line 100000, inr_line 100000]"
    and same: "currency_lines 100000 ''PR'' = currency_lines 100000 ''US''"
    by blast+
  from entry have "name (local_currency_info ''PR'') = ''USD''"
    by simp
  with lines same show ?thesis
    by blast
qed

end
